theory Spec2Isabelle
  imports Complex_Main "HOL-Library.Word"
begin

unbundle bit_operations_syntax

section \<open>The object manager of Colobot: registry and radar\<close>

text \<open>
  A shallow embedding of \<^verbatim>\<open>src/object/object_manager.cpp\<close>. The class
  \<^verbatim>\<open>CObjectManager\<close> keeps every object of the world in \<^verbatim>\<open>m_objects\<close>, a map
  from ids to owned objects, and answers radar queries over it.

  Conventions of the model:
  \<^item> a \<^verbatim>\<open>float\<close> is a \<^typ>\<open>real\<close> (no rounding, no NaN); the claims below are about
    filters and comparisons, not about rounding;
  \<^item> an \<^verbatim>\<open>int\<close> is an \<^typ>\<open>int\<close>; where the source increments one, the signed
    overflow of C++ is an outcome of its own;
  \<^item> a \<^verbatim>\<open>CObject*\<close> is a \<^typ>\<open>'a option\<close> of the object pointed to, \<open>None\<close> for
    \<^verbatim>\<open>nullptr\<close>; equality of pointers is equality of these values (objects of one
    registry differ at least in their id);
  \<^item> what the source calls and does not define (the \<^verbatim>\<open>Math::\<close> helpers, \<^verbatim>\<open>g_unit\<close>,
    the \<^verbatim>\<open>FILTER_\<close> constants, \<^verbatim>\<open>IsObjectBeingTransported\<close>, the factory) is a
    parameter of the model.
\<close>

subsection \<open>Data\<close>

text \<open>
  \<^verbatim>\<open>ObjectType\<close> is declared in a header outside the source at hand. The enumerators
  the source names are constructors; \<open>OBJECT_OTHER n\<close> stands for every other one.
\<close>

datatype ObjectType =
    OBJECT_NULL
  | OBJECT_RUINmobilew1 | OBJECT_RUINmobilew2
  | OBJECT_RUINmobilet1 | OBJECT_RUINmobilet2
  | OBJECT_RUINmobiler1 | OBJECT_RUINmobiler2
  | OBJECT_SCRAP1 | OBJECT_SCRAP2 | OBJECT_SCRAP3 | OBJECT_SCRAP4 | OBJECT_SCRAP5
  | OBJECT_BARRIER1 | OBJECT_BARRIER2 | OBJECT_BARRIER3
  | OBJECT_TOTO | OBJECT_CONTROLLER
  | OBJECT_OTHER nat

record Vector =
  vec_x :: real
  vec_y :: real
  vec_z :: real

text \<open>\<^verbatim>\<open>Math::Vector()\<close>, the default constructor: the origin.\<close>

definition Vector0 :: Vector where
  "Vector0 = \<lparr>vec_x = 0, vec_y = 0, vec_z = 0\<rparr>"

record CPhysics =
  GetLand :: bool

text \<open>What the manager reads of an object, one field for each getter it calls.\<close>

record CObject =
  GetID :: int
  GetType :: ObjectType
  GetTeam :: int
  GetActive :: bool
  GetProxyActivate :: bool
  GetPosition :: Vector
  GetRotationY :: real
  GetPhysics :: "CPhysics option"

text \<open>\<^verbatim>\<open>ObjectCreateParams\<close>, with the fields the second \<^verbatim>\<open>CreateObject\<close> fills in.\<close>

record ObjectCreateParams =
  params_pos :: Vector
  params_angle :: real
  params_type :: ObjectType
  params_power :: real
  params_zoom :: real
  params_height :: real
  params_trainer :: bool
  params_toy :: bool
  params_option :: int
  params_team :: int
  params_id :: int

text \<open>
  \<^verbatim>\<open>CObjectCreateException(message, type)\<close>, thrown by \<^verbatim>\<open>CreateObject\<close>: the
  CreationFailed error, carrying the requested category.
\<close>

datatype CObjectCreateException = CObjectCreateException string ObjectType

text \<open>
  The registry. \<^verbatim>\<open>m_objects\<close> is declared in the header and used here as a
  \<^verbatim>\<open>std::map\<close> from \<^verbatim>\<open>int\<close> to an owning pointer: an association list in
  iteration order (ascending keys), a slot being \<open>None\<close> once its pointer is reset.
\<close>

type_synonym CObjectMap = "(int \<times> CObject option) list"

record CObjectManager =
  m_objects :: CObjectMap
  m_nextId :: int
  m_shouldCleanRemovedObjects :: bool

text \<open>The invariant of a \<^verbatim>\<open>std::map\<close>: keys strictly ascending, so no key twice.\<close>

definition map_inv :: "CObjectMap \<Rightarrow> bool" where
  "map_inv m = sorted_wrt (<) (map fst m)"

text \<open>An \<^verbatim>\<open>int\<close> of 32 bits.\<close>

definition INT_MAX :: int where
  "INT_MAX = 2147483647"

definition INT_MIN :: int where
  "INT_MIN = - 2147483648"

definition is_int :: "int \<Rightarrow> bool" where
  "is_int k = (INT_MIN \<le> k \<and> k \<le> INT_MAX)"

text \<open>
  The collaborators and constants the source uses and does not define. \<open>m_objectFactory\<close>
  is \<^verbatim>\<open>m_objectFactory->CreateObject\<close>, \<open>None\<close> when it returns no object.
\<close>

record externals =
  g_unit :: real
  NormAngle :: "real \<Rightarrow> real"
  DistanceProjected :: "Vector \<Rightarrow> Vector \<Rightarrow> real"
  RotateAngle :: "real \<Rightarrow> real \<Rightarrow> real"
  TestAngle :: "real \<Rightarrow> real \<Rightarrow> real \<Rightarrow> bool"
  IsObjectBeingTransported :: "CObject \<Rightarrow> bool"
  FILTER_NONE :: "32 word"
  FILTER_ONLYLANDING :: "32 word"
  FILTER_ONLYFLYING :: "32 word"
  FILTER_FRIENDLY :: "32 word"
  FILTER_ENEMY :: "32 word"
  FILTER_NEUTRAL :: "32 word"
  m_objectFactory :: "ObjectCreateParams \<Rightarrow> CObject option"

subsection \<open>Operations of \<^verbatim>\<open>std::map\<close>\<close>

text \<open>\<^verbatim>\<open>m.find(k)\<close>: the slot under \<open>k\<close>, \<open>None\<close> for \<^verbatim>\<open>m.end()\<close>.\<close>

fun map_find :: "CObjectMap \<Rightarrow> int \<Rightarrow> CObject option option" where
  "map_find [] k = None"
| "map_find ((k', v) # m) k = (if k = k' then Some v else map_find m k)"

text \<open>\<^verbatim>\<open>it->second.reset()\<close> for the iterator that \<^verbatim>\<open>find(k)\<close> returned.\<close>

fun map_reset :: "int \<Rightarrow> CObjectMap \<Rightarrow> CObjectMap" where
  "map_reset k [] = []"
| "map_reset k ((k', v) # m) = (if k = k' then (k', None) # m else (k', v) # map_reset k m)"

text \<open>\<^verbatim>\<open>m[k] = v\<close>: replaces the slot under \<open>k\<close>, or inserts it at its place.\<close>

fun map_assign :: "int \<Rightarrow> CObject option \<Rightarrow> CObjectMap \<Rightarrow> CObjectMap" where
  "map_assign k v [] = [(k, v)]"
| "map_assign k v ((k', v') # m) =
     (if k = k' then (k, v) # m
      else if k < k' then (k, v) # (k', v') # m
      else (k', v') # map_assign k v m)"

subsection \<open>The registry\<close>

text \<open>
  \<^verbatim>\<open>DeleteObject(instance)\<close>, lines 56 to 74. \<^verbatim>\<open>instance\<close> is not null (the
  assertion). The teardown \<^verbatim>\<open>oldObj->DeleteObject()\<close> acts on the object that is
  destroyed next and is not part of the registry. Returns the result and the new state.
\<close>

definition DeleteObject :: "CObject \<Rightarrow> CObjectManager \<Rightarrow> bool \<times> CObjectManager" where
  "DeleteObject instance s =
     (case map_find (m_objects s) (GetID instance) of
        Some _ \<Rightarrow>
          (True, s\<lparr>m_objects := map_reset (GetID instance) (m_objects s),
                   m_shouldCleanRemovedObjects := True\<rparr>)
      | None \<Rightarrow> (False, s))"

text \<open>
  \<^verbatim>\<open>CleanRemovedObjects()\<close>, lines 76 to 86: looks at \<^verbatim>\<open>m_objects.begin()\<close> only.
\<close>

definition CleanRemovedObjects :: "CObjectManager \<Rightarrow> CObjectManager" where
  "CleanRemovedObjects s =
     (case m_objects s of
        [] \<Rightarrow> s\<lparr>m_shouldCleanRemovedObjects := False\<rparr>
      | (k, v) # m \<Rightarrow>
          (if v = None
           then s\<lparr>m_objects := m, m_shouldCleanRemovedObjects := False\<rparr>
           else s\<lparr>m_shouldCleanRemovedObjects := False\<rparr>))"

text \<open>
  \<^verbatim>\<open>DeleteAllObjects()\<close>, lines 88 to 104 (the forced teardown acts on objects that
  are destroyed by \<^verbatim>\<open>clear()\<close>).
\<close>

definition DeleteAllObjects :: "CObjectManager \<Rightarrow> CObjectManager" where
  "DeleteAllObjects s = s\<lparr>m_objects := [], m_nextId := 0\<rparr>"

text \<open>
  \<^verbatim>\<open>GetObjectById(unsigned int id)\<close>, lines 106 to 110. The keys are \<^verbatim>\<open>int\<close>, so
  the argument is converted back to \<^verbatim>\<open>int\<close> (\<open>sint\<close>) at \<^verbatim>\<open>count\<close> and \<^verbatim>\<open>[]\<close>.
\<close>

definition GetObjectById :: "CObjectManager \<Rightarrow> 32 word \<Rightarrow> CObject option" where
  "GetObjectById s uid =
     (case map_find (m_objects s) (sint uid) of
        None \<Rightarrow> None
      | Some slot \<Rightarrow> slot)"

text \<open>
  Passing an \<^verbatim>\<open>int\<close> such as \<^verbatim>\<open>object->GetID()\<close> for the \<^verbatim>\<open>unsigned int\<close>
  parameter converts it modulo \<open>2 ^ 32\<close>.
\<close>

definition to_unsigned :: "int \<Rightarrow> 32 word" where
  "to_unsigned k = word_of_int k"

text \<open>
  The outcomes of \<^verbatim>\<open>CreateObject\<close>: it returns the object, or throws (the state is
  what it was at the \<^verbatim>\<open>throw\<close>), or stops at the failed assertion, or has no defined
  behaviour because \<^verbatim>\<open>m_nextId++\<close> overflows.
\<close>

datatype CreateOutcome =
    Returned CObject CObjectManager
  | Thrown CObjectCreateException CObjectManager
  | AssertionFailed
  | SignedOverflow

text \<open>\<^verbatim>\<open>CreateObject(ObjectCreateParams params)\<close>, lines 120 to 140.\<close>

definition CreateObject :: "externals \<Rightarrow> ObjectCreateParams \<Rightarrow> CObjectManager \<Rightarrow> CreateOutcome" where
  "CreateObject ext params s =
     (if params_id params < 0 \<and> m_nextId s = INT_MAX then SignedOverflow
      else
        let (params', s') =
              (if params_id params < 0
               then (params\<lparr>params_id := m_nextId s\<rparr>, s\<lparr>m_nextId := m_nextId s + 1\<rparr>)
               else (params, s))
        in if map_find (m_objects s') (params_id params') \<noteq> None then AssertionFailed
           else
             (case m_objectFactory ext params' of
                None \<Rightarrow>
                  Thrown (CObjectCreateException ''Something went wrong in CObjectFactory''
                            (params_type params')) s'
              | Some objectPtr \<Rightarrow>
                  Returned objectPtr
                    (s'\<lparr>m_objects :=
                          map_assign (params_id params') (Some objectPtr) (m_objects s')\<rparr>)))"

text \<open>
  Modelled from the spec: \<^verbatim>\<open>GetAllObjects()\<close> is defined in the header. The spec
  says it "produces the current non-owning reference list (skipping empty slots)".
\<close>

definition GetAllObjects :: "CObjectManager \<Rightarrow> CObject list" where
  "GetAllObjects s = List.map_filter snd (m_objects s)"

text \<open>The loop of \<^verbatim>\<open>TeamExists\<close>, lines 187 to 194, over the objects left.\<close>

fun TeamExists_loop :: "int \<Rightarrow> CObject list \<Rightarrow> bool" where
  "TeamExists_loop team [] = False"
| "TeamExists_loop team (object # objects) =
     (if \<not> GetActive object then TeamExists_loop team objects
      else if GetTeam object = team then True
      else TeamExists_loop team objects)"

text \<open>\<^verbatim>\<open>TeamExists(int team)\<close>, lines 183 to 196.\<close>

definition TeamExists :: "CObjectManager \<Rightarrow> int \<Rightarrow> bool" where
  "TeamExists s team = (if team = 0 then True else TeamExists_loop team (GetAllObjects s))"

subsection \<open>The radar\<close>

text \<open>
  The body of \<^verbatim>\<open>if (cbotTypes)\<close>, lines 291 to 312: three assignments to
  \<^verbatim>\<open>oType\<close>, one after the other.
\<close>

definition cbot_type :: "ObjectType \<Rightarrow> ObjectType" where
  "cbot_type oType =
     (let oType1 =
            (if oType = OBJECT_RUINmobilew2 \<or> oType = OBJECT_RUINmobilet1 \<or>
                oType = OBJECT_RUINmobilet2 \<or> oType = OBJECT_RUINmobiler1 \<or>
                oType = OBJECT_RUINmobiler2
             then OBJECT_RUINmobilew1 else oType);
          oType2 =
            (if oType1 = OBJECT_SCRAP2 \<or> oType1 = OBJECT_SCRAP3 \<or>
                oType1 = OBJECT_SCRAP4 \<or> oType1 = OBJECT_SCRAP5
             then OBJECT_SCRAP1 else oType1);
          oType3 =
            (if oType2 = OBJECT_BARRIER2 \<or> oType2 = OBJECT_BARRIER3
             then OBJECT_BARRIER1 else oType2)
      in oType3)"

text \<open>The type the filters see, lines 286 to 314.\<close>

definition radar_oType :: "bool \<Rightarrow> CObject \<Rightarrow> ObjectType" where
  "radar_oType cbotTypes pObj = (if cbotTypes then cbot_type (GetType pObj) else GetType pObj)"

text \<open>
  The category filter, lines 316 and 318: \<open>True\<close> when one of the two statements
  goes on to the next object (\<^verbatim>\<open>continue\<close>).
\<close>

definition category_continue :: "ObjectType list \<Rightarrow> ObjectType \<Rightarrow> bool" where
  "category_continue type oType =
     ((oType \<notin> set type \<and> length type > 0) \<or>
      ((oType = OBJECT_TOTO \<or> oType = OBJECT_CONTROLLER) \<and> length type = 0))"

text \<open>
  The allegiance filter, lines 336 to 340, for a requester \<open>this\<close> that is not null:
  \<open>True\<close> when it goes on to the next object.
\<close>

definition allegiance_continue :: "externals \<Rightarrow> 32 word \<Rightarrow> CObject \<Rightarrow> CObject \<Rightarrow> bool" where
  "allegiance_continue ext filter_enemy pObj this =
     (let enemy0 = FILTER_NONE ext;
          enemy1 = (if GetTeam pObj = 0 then enemy0 OR FILTER_NEUTRAL ext else enemy0);
          enemy2 = (if GetTeam pObj \<noteq> 0 \<and> GetTeam pObj = GetTeam this
                    then enemy1 OR FILTER_FRIENDLY ext else enemy1);
          enemy3 = (if GetTeam pObj \<noteq> 0 \<and> GetTeam pObj \<noteq> GetTeam this
                    then enemy2 OR FILTER_ENEMY ext else enemy2)
      in filter_enemy \<noteq> 0 \<and> filter_enemy AND enemy3 = 0)"

text \<open>
  The filters of the loop body, lines 278 to 348, for the slot \<open>slot\<close>
  (\<^verbatim>\<open>it->second.get()\<close>): \<open>None\<close> where the body goes on to the next object or the
  angle test fails, otherwise the object and its distance \<open>d\<close>, with which the body
  reaches line 350. \<^verbatim>\<open>Math::PI\<close> is \<^term>\<open>pi\<close>.
\<close>

definition Radar_filters ::
  "externals \<Rightarrow> CObject option \<Rightarrow> Vector \<Rightarrow> real \<Rightarrow> ObjectType list \<Rightarrow> real \<Rightarrow> real \<Rightarrow> real \<Rightarrow>
   int \<Rightarrow> 32 word \<Rightarrow> 32 word \<Rightarrow> bool \<Rightarrow> CObject option \<Rightarrow> (CObject \<times> real) option" where
  "Radar_filters ext pThis iPos iAngle type focus minDist maxDist
       filter_team filter_flying filter_enemy cbotTypes slot =
     (if slot = pThis then None
      else case slot of
        None \<Rightarrow> None
      | Some pObj \<Rightarrow>
          if IsObjectBeingTransported ext pObj then None
          else if \<not> GetActive pObj then None
          else if GetProxyActivate pObj then None
          else if category_continue type (radar_oType cbotTypes pObj) then None
          else if filter_flying = FILTER_ONLYLANDING ext \<and>
                  (case GetPhysics pObj of None \<Rightarrow> False | Some physics \<Rightarrow> \<not> GetLand physics)
               then None
          else if filter_flying = FILTER_ONLYFLYING ext \<and>
                  (case GetPhysics pObj of None \<Rightarrow> False | Some physics \<Rightarrow> GetLand physics)
               then None
          else if filter_team \<noteq> 0 \<and> GetTeam pObj \<noteq> filter_team then None
          else if (case pThis of None \<Rightarrow> False
                   | Some this \<Rightarrow> allegiance_continue ext filter_enemy pObj this)
               then None
          else
            let oPos = GetPosition pObj;
                d = DistanceProjected ext iPos oPos
            in if d < minDist \<or> d > maxDist then None
               else
                 let a = RotateAngle ext (vec_x oPos - vec_x iPos) (vec_z iPos - vec_z oPos)
                 in if TestAngle ext a (iAngle - focus / 2) (iAngle + focus / 2) \<or>
                       focus \<ge> pi * 2
                    then Some (pObj, d) else None)"

text \<open>The sentinel, lines 273 and 274.\<close>

definition Radar_initial_best :: "bool \<Rightarrow> real" where
  "Radar_initial_best furthest = (if \<not> furthest then 100000 else 0)"

text \<open>The scoring, lines 350 to 355, on \<^verbatim>\<open>best\<close> and \<^verbatim>\<open>pBest\<close>.\<close>

definition Radar_score :: "bool \<Rightarrow> real \<times> CObject option \<Rightarrow> CObject \<times> real \<Rightarrow> real \<times> CObject option" where
  "Radar_score furthest acc cand =
     (case (acc, cand) of
        ((best, pBest), (pObj, d)) \<Rightarrow>
          if (\<not> furthest \<and> d < best) \<or> (furthest \<and> d > best)
          then (d, Some pObj) else (best, pBest))"

text \<open>One turn of the loop, lines 276 to 357.\<close>

definition Radar_step ::
  "externals \<Rightarrow> CObject option \<Rightarrow> Vector \<Rightarrow> real \<Rightarrow> ObjectType list \<Rightarrow> real \<Rightarrow> real \<Rightarrow> real \<Rightarrow>
   bool \<Rightarrow> int \<Rightarrow> 32 word \<Rightarrow> 32 word \<Rightarrow> bool \<Rightarrow>
   real \<times> CObject option \<Rightarrow> CObject option \<Rightarrow> real \<times> CObject option" where
  "Radar_step ext pThis iPos iAngle type focus minDist maxDist furthest
       filter_team filter_flying filter_enemy cbotTypes acc slot =
     (case Radar_filters ext pThis iPos iAngle type focus minDist maxDist
             filter_team filter_flying filter_enemy cbotTypes slot of
        None \<Rightarrow> acc
      | Some cand \<Rightarrow> Radar_score furthest acc cand)"

text \<open>
  \<^verbatim>\<open>Radar\<close>, lines 254 to 360: the overload that the other ones call. The loop runs
  over the slots of \<^verbatim>\<open>m_objects\<close> in iteration order.
\<close>

definition Radar ::
  "externals \<Rightarrow> CObjectManager \<Rightarrow> CObject option \<Rightarrow> Vector \<Rightarrow> real \<Rightarrow> ObjectType list \<Rightarrow>
   real \<Rightarrow> real \<Rightarrow> real \<Rightarrow> real \<Rightarrow> bool \<Rightarrow> 32 word \<Rightarrow> bool \<Rightarrow> CObject option" where
  "Radar ext s pThis thisPosition thisAngle type angle focus minDist maxDist furthest
       rfilter cbotTypes =
     (let minDist' = minDist * g_unit ext;
          maxDist' = maxDist * g_unit ext;
          iPos = thisPosition;
          iAngle = NormAngle ext (thisAngle + angle);
          filter_team = uint (rfilter AND 0xFF);
          filter_flying = rfilter AND (FILTER_ONLYLANDING ext OR FILTER_ONLYFLYING ext);
          filter_enemy =
            rfilter AND (FILTER_FRIENDLY ext OR FILTER_ENEMY ext OR FILTER_NEUTRAL ext)
      in snd (foldl
                (Radar_step ext pThis iPos iAngle type focus minDist' maxDist' furthest
                   filter_team filter_flying filter_enemy cbotTypes)
                (Radar_initial_best furthest, None)
                (map snd (m_objects s))))"

text \<open>
  A candidate passes all filters of a query when the loop body reaches the scoring
  with it: the filters of \<^verbatim>\<open>Radar\<close> with the locals that \<^verbatim>\<open>Radar\<close> computes.
\<close>

definition Radar_passes ::
  "externals \<Rightarrow> CObject option \<Rightarrow> Vector \<Rightarrow> real \<Rightarrow> ObjectType list \<Rightarrow>
   real \<Rightarrow> real \<Rightarrow> real \<Rightarrow> real \<Rightarrow> 32 word \<Rightarrow> bool \<Rightarrow> CObject \<Rightarrow> (CObject \<times> real) option" where
  "Radar_passes ext pThis thisPosition thisAngle type angle focus minDist maxDist
       rfilter cbotTypes pObj =
     Radar_filters ext pThis thisPosition (NormAngle ext (thisAngle + angle)) type focus
       (minDist * g_unit ext) (maxDist * g_unit ext)
       (uint (rfilter AND 0xFF))
       (rfilter AND (FILTER_ONLYLANDING ext OR FILTER_ONLYFLYING ext))
       (rfilter AND (FILTER_FRIENDLY ext OR FILTER_ENEMY ext OR FILTER_NEUTRAL ext))
       cbotTypes (Some pObj)"

subsection \<open>A concrete world\<close>

text \<open>
  Modelled from the spec: \<^verbatim>\<open>Math::DistanceProjected\<close> is defined in the maths
  library. The spec says "project both positions onto the horizontal plane, compute
  planar distance".
\<close>

definition planar_distance :: "Vector \<Rightarrow> Vector \<Rightarrow> real" where
  "planar_distance a b = sqrt ((vec_x a - vec_x b)\<^sup>2 + (vec_z a - vec_z b)\<^sup>2)"

text \<open>
  A factory for the examples: it makes no object of type \<^verbatim>\<open>OBJECT_NULL\<close>, and any
  other object as the parameters say, active and without physics.
\<close>

definition example_factory :: "ObjectCreateParams \<Rightarrow> CObject option" where
  "example_factory params =
     (if params_type params = OBJECT_NULL then None
      else Some \<lparr>GetID = params_id params, GetType = params_type params,
                 GetTeam = params_team params, GetActive = True, GetProxyActivate = False,
                 GetPosition = params_pos params, GetRotationY = params_angle params,
                 GetPhysics = None\<rparr>)"

text \<open>
  The externals of the examples: a world unit of 4, the planar distance, filter bits
  8 to 12, nothing transported. The angle functions are placeholders: the examples
  query the full circle (\<open>focus = 2 * pi\<close>), where line 348 does not depend on them.
\<close>

definition example_externals :: externals where
  "example_externals =
     \<lparr>g_unit = 4,
      NormAngle = (\<lambda>a. a),
      DistanceProjected = planar_distance,
      RotateAngle = (\<lambda>u v. 0),
      TestAngle = (\<lambda>a lo hi. lo \<le> a \<and> a \<le> hi),
      IsObjectBeingTransported = (\<lambda>pObj. False),
      FILTER_NONE = 0,
      FILTER_ONLYLANDING = 256,
      FILTER_ONLYFLYING = 512,
      FILTER_FRIENDLY = 1024,
      FILTER_ENEMY = 2048,
      FILTER_NEUTRAL = 4096,
      m_objectFactory = example_factory\<rparr>"

definition example_params :: "ObjectType \<Rightarrow> real \<Rightarrow> int \<Rightarrow> int \<Rightarrow> ObjectCreateParams" where
  "example_params t px tm i =
     \<lparr>params_pos = \<lparr>vec_x = px, vec_y = 0, vec_z = 0\<rparr>, params_angle = 0, params_type = t,
      params_power = 0, params_zoom = 1, params_height = 0, params_trainer = False,
      params_toy = False, params_option = 0, params_team = tm, params_id = i\<rparr>"

definition example_object :: "int \<Rightarrow> ObjectType \<Rightarrow> real \<Rightarrow> int \<Rightarrow> CObject" where
  "example_object i t px tm =
     \<lparr>GetID = i, GetType = t, GetTeam = tm, GetActive = True, GetProxyActivate = False,
      GetPosition = \<lparr>vec_x = px, vec_y = 0, vec_z = 0\<rparr>, GetRotationY = 0,
      GetPhysics = None\<rparr>"

text \<open>The manager as its constructor leaves it, lines 41 to 50.\<close>

definition CObjectManager0 :: CObjectManager where
  "CObjectManager0 = \<lparr>m_objects = [], m_nextId = 0, m_shouldCleanRemovedObjects = False\<rparr>"

text \<open>Two objects made one after the other, and the same registry with the second deleted.\<close>

definition two_objects :: CObjectManager where
  "two_objects =
     \<lparr>m_objects = [(0, Some (example_object 0 OBJECT_SCRAP1 0 0)),
                   (1, Some (example_object 1 OBJECT_SCRAP1 5 0))],
      m_nextId = 2, m_shouldCleanRemovedObjects = False\<rparr>"

definition two_objects_deleted :: CObjectManager where
  "two_objects_deleted =
     \<lparr>m_objects = [(0, Some (example_object 0 OBJECT_SCRAP1 0 0)), (1, None)],
      m_nextId = 2, m_shouldCleanRemovedObjects = True\<rparr>"

text \<open>The registry after the first of them was made.\<close>

definition one_object :: CObjectManager where
  "one_object =
     \<lparr>m_objects = [(0, Some (example_object 0 OBJECT_SCRAP1 0 0))],
      m_nextId = 1, m_shouldCleanRemovedObjects = False\<rparr>"

text \<open>An active object of team 1 and an inactive one of team 2.\<close>

definition two_teams :: CObjectManager where
  "two_teams =
     \<lparr>m_objects = [(0, Some (example_object 0 OBJECT_SCRAP1 0 1)),
                   (1, Some ((example_object 1 OBJECT_SCRAP1 5 2)\<lparr>GetActive := False\<rparr>))],
      m_nextId = 2, m_shouldCleanRemovedObjects = False\<rparr>"

text \<open>
  Every object of the registry sits under its own id, as it does when the factory gives
  each object the id of its parameters.
\<close>

definition ids_match :: "CObjectMap \<Rightarrow> bool" where
  "ids_match m =
     list_all (\<lambda>(k, slot). case slot of None \<Rightarrow> True | Some obj \<Rightarrow> GetID obj = k) m"

text \<open>Worlds of one object: a ruin, an object 100000 away from the origin, a TOTO.\<close>

definition ruin_world :: CObjectManager where
  "ruin_world =
     \<lparr>m_objects = [(0, Some (example_object 0 OBJECT_RUINmobilew1 5 0))],
      m_nextId = 1, m_shouldCleanRemovedObjects = False\<rparr>"

definition far_object :: CObjectManager where
  "far_object =
     \<lparr>m_objects = [(0, Some (example_object 0 OBJECT_SCRAP1 100000 0))],
      m_nextId = 1, m_shouldCleanRemovedObjects = False\<rparr>"

definition toto_world :: CObjectManager where
  "toto_world =
     \<lparr>m_objects = [(0, Some (example_object 0 OBJECT_TOTO 5 0))],
      m_nextId = 1, m_shouldCleanRemovedObjects = False\<rparr>"

section \<open>Lemmas on the map and the integers\<close>

lemma sint_to_unsigned: "is_int k \<Longrightarrow> sint (to_unsigned k) = k"
  unfolding is_int_def INT_MIN_def INT_MAX_def to_unsigned_def
  by (simp add: signed_of_int signed_take_bit_int_eq_self)

lemma map_find_map_reset_same:
  "map_find (map_reset k m) k = (if map_find m k = None then None else Some None)"
  by (induction m) (auto split: if_splits)

lemma map_find_map_reset_other:
  "k' \<noteq> k \<Longrightarrow> map_find (map_reset k m) k' = map_find m k'"
  by (induction m) auto

lemma map_find_None_iff: "map_find m k = None \<longleftrightarrow> k \<notin> fst ` set m"
  by (induction m) (auto split: if_splits)

lemma map_find_Some_mem: "map_find m k = Some v \<Longrightarrow> (k, v) \<in> set m"
  by (induction m) (auto split: if_splits)

lemma map_inv_Cons: "map_inv ((k, v) # m) \<longleftrightarrow> (\<forall>k' \<in> fst ` set m. k < k') \<and> map_inv m"
  by (auto simp: map_inv_def)

lemma map_inv_mem_find: "map_inv m \<Longrightarrow> (k, v) \<in> set m \<Longrightarrow> map_find m k = Some v"
  by (induction m) (force simp: map_inv_Cons)+

lemma map_inv_map_reset: "map_inv (map_reset k m) = map_inv m"
proof -
  have "map fst (map_reset k m) = map fst m" by (induction m) auto
  then show ?thesis by (simp add: map_inv_def)
qed

lemma map_find_map_assign:
  "map_find (map_assign k v m) k' = (if k' = k then Some v else map_find m k')"
  by (induction m) auto

lemma set_map_assign: "fst ` set (map_assign k v m) = insert k (fst ` set m)"
  by (induction k v m rule: map_assign.induct) (simp_all add: insert_commute)

lemma map_inv_map_assign: "map_inv m \<Longrightarrow> map_inv (map_assign k v m)"
proof (induction m)
  case Nil
  then show ?case by (simp add: map_inv_def)
next
  case (Cons a m)
  obtain k' v' where a: "a = (k', v')" by (cases a)
  from Cons show ?case unfolding a
    by (auto simp: map_inv_Cons set_map_assign)
qed

lemma GetObjectById_Clean:
  assumes "map_inv (m_objects s)" "GetObjectById s uid = None"
  shows "GetObjectById (CleanRemovedObjects s) uid = None"
proof (cases "m_objects s")
  case Nil
  then show ?thesis using assms by (simp add: GetObjectById_def CleanRemovedObjects_def)
next
  case (Cons a m)
  obtain k v where a: "a = (k, v)" by (cases a)
  show ?thesis
  proof (cases "v = None")
    case False
    then show ?thesis using assms Cons a
      by (auto simp: GetObjectById_def CleanRemovedObjects_def split: if_splits option.splits)
  next
    case True
    have "map_find m (sint uid) = None \<or> map_find m (sint uid) = Some None"
      using assms Cons a True
      by (auto simp: GetObjectById_def map_inv_Cons map_find_None_iff split: option.splits if_splits)
    then show ?thesis using Cons a True
      by (auto simp: GetObjectById_def CleanRemovedObjects_def)
  qed
qed

lemma map_inv_Clean: "map_inv (m_objects s) \<Longrightarrow> map_inv (m_objects (CleanRemovedObjects s))"
  unfolding CleanRemovedObjects_def map_inv_def by (fastforce split: list.splits)

lemma GetObjectById_Clean_funpow:
  "map_inv (m_objects s) \<Longrightarrow> GetObjectById s uid = None \<Longrightarrow>
   map_inv (m_objects ((CleanRemovedObjects ^^ n) s)) \<and>
   GetObjectById ((CleanRemovedObjects ^^ n) s) uid = None"
  by (induction n) (auto simp: GetObjectById_Clean map_inv_Clean)

lemma sint_to_unsigned_num [simp]: "sint (to_unsigned 1) = 1" "sint (to_unsigned 0) = 0"
  by (simp_all add: to_unsigned_def)

lemma is_int_small [simp]: "is_int 0" "is_int 1" "is_int 2"
  by (simp_all add: is_int_def INT_MIN_def INT_MAX_def)

lemma example_object_sel [simp]:
  "GetID (example_object i t px tm) = i"
  "GetType (example_object i t px tm) = t"
  "GetTeam (example_object i t px tm) = tm"
  "GetActive (example_object i t px tm)"
  "\<not> GetProxyActivate (example_object i t px tm)"
  "GetPosition (example_object i t px tm) = \<lparr>vec_x = px, vec_y = 0, vec_z = 0\<rparr>"
  "GetPhysics (example_object i t px tm) = None"
  by (simp_all add: example_object_def)

lemma DeleteObject_two_objects:
  "DeleteObject (example_object 1 OBJECT_SCRAP1 5 0) two_objects = (True, two_objects_deleted)"
  by (simp add: DeleteObject_def two_objects_def two_objects_deleted_def)

lemma example_factory_params [simp]:
  "example_factory (example_params t px tm i) =
     (if t = OBJECT_NULL then None else Some (example_object i t px tm))"
  by (simp add: example_factory_def example_params_def example_object_def)

lemma example_params_sel [simp]:
  "params_id (example_params t px tm i) = i"
  "params_type (example_params t px tm i) = t"
  "(example_params t px tm i)\<lparr>params_id := j\<rparr> = example_params t px tm j"
  by (simp_all add: example_params_def)

lemma m_objectFactory_example [simp]: "m_objectFactory example_externals = example_factory"
  by (simp add: example_externals_def)

lemma INT_MAX_simps [simp]: "0 < INT_MAX" "1 < INT_MAX" "2 < INT_MAX"
  by (simp_all add: INT_MAX_def)

lemma Create_first:
  "CreateObject example_externals (example_params OBJECT_SCRAP1 0 0 (- 1)) CObjectManager0 =
     Returned (example_object 0 OBJECT_SCRAP1 0 0) one_object"
  by (simp add: CreateObject_def CObjectManager0_def one_object_def INT_MAX_def)

lemma Create_second:
  "CreateObject example_externals (example_params OBJECT_SCRAP1 5 0 (- 1)) one_object =
     Returned (example_object 1 OBJECT_SCRAP1 5 0) two_objects"
  by (simp add: CreateObject_def two_objects_def one_object_def INT_MAX_def)

lemma Clean_funpow_live_first:
  "m_objects s = (k, Some obj) # m \<Longrightarrow> m_objects ((CleanRemovedObjects ^^ n) s) = m_objects s"
  by (induction n) (simp_all add: CleanRemovedObjects_def)

lemma TeamExists_loop_iff:
  "TeamExists_loop team objects \<longleftrightarrow> (\<exists>object \<in> set objects. GetActive object \<and> GetTeam object = team)"
  by (induction objects) auto

lemma set_GetAllObjects: "set (GetAllObjects s) = {object. \<exists>k. (k, Some object) \<in> set (m_objects s)}"
  by (force simp: GetAllObjects_def List.map_filter_def image_iff)

section \<open>Lemmas on the radar loop\<close>

lemma Radar_filters_slot:
  "Radar_filters ext pThis iPos iAngle type focus minDist maxDist
     filter_team filter_flying filter_enemy cbotTypes slot = Some (obj, d) \<Longrightarrow> slot = Some obj"
  by (auto simp: Radar_filters_def Let_def split: if_splits option.splits)

lemma Radar_filters_category:
  "Radar_filters ext pThis iPos iAngle type focus minDist maxDist
     filter_team filter_flying filter_enemy cbotTypes (Some obj) = Some c \<Longrightarrow>
   \<not> category_continue type (radar_oType cbotTypes obj)"
  by (auto simp: Radar_filters_def Let_def split: if_splits option.splits)

lemma Radar_filters_blocked:
  "category_continue type (radar_oType cbotTypes obj) \<Longrightarrow>
   Radar_filters ext pThis iPos iAngle type focus minDist maxDist
     filter_team filter_flying filter_enemy cbotTypes (Some obj) = None"
  by (simp add: Radar_filters_def)

text \<open>The loop with any filter function \<open>F\<close> in the place of the filters.\<close>

lemma score_snd:
  "snd (Radar_score furthest acc (obj, d)) = Some r \<Longrightarrow> snd acc = Some r \<or> obj = r"
  by (cases acc) (auto simp: Radar_score_def split: if_splits)

lemma score_keeps_Some:
  "snd acc \<noteq> None \<Longrightarrow> snd (Radar_score furthest acc cand) \<noteq> None"
  by (cases acc; cases cand) (auto simp: Radar_score_def)

lemma loop_result:
  assumes F: "\<And>slot obj d. F slot = Some (obj, d) \<Longrightarrow> slot = Some obj"
  shows "snd (foldl (\<lambda>acc slot. case F slot of None \<Rightarrow> acc
                       | Some cand \<Rightarrow> Radar_score furthest acc cand) acc slots) = Some r \<Longrightarrow>
         snd acc = Some r \<or> (Some r \<in> set slots \<and> F (Some r) \<noteq> None)"
proof (induction slots arbitrary: acc)
  case Nil
  then show ?case by simp
next
  case (Cons slot slots)
  let ?acc' = "case F slot of None \<Rightarrow> acc | Some cand \<Rightarrow> Radar_score furthest acc cand"
  from Cons.prems have "snd ?acc' = Some r \<or> (Some r \<in> set slots \<and> F (Some r) \<noteq> None)"
    by (intro Cons.IH) simp
  then show ?case
  proof
    assume a: "snd ?acc' = Some r"
    show ?thesis
    proof (cases "F slot")
      case None
      with a show ?thesis by simp
    next
      case (Some cand)
      obtain obj d where cand: "cand = (obj, d)" by (cases cand)
      from F Some cand have slot: "slot = Some obj" by blast
      from a Some cand have "snd acc = Some r \<or> obj = r"
        by (auto dest: score_snd)
      then show ?thesis using slot Some by auto
    qed
  next
    assume "Some r \<in> set slots \<and> F (Some r) \<noteq> None"
    then show ?thesis by simp
  qed
qed

lemma loop_keeps_Some:
  "snd acc \<noteq> None \<Longrightarrow>
   snd (foldl (\<lambda>acc slot. case F slot of None \<Rightarrow> acc
                 | Some cand \<Rightarrow> Radar_score furthest acc cand) acc slots) \<noteq> None"
proof (induction slots arbitrary: acc)
  case Nil
  then show ?case by simp
next
  case (Cons slot slots)
  let ?acc' = "case F slot of None \<Rightarrow> acc | Some cand \<Rightarrow> Radar_score furthest acc cand"
  have "snd ?acc' \<noteq> None"
    using Cons.prems by (cases "F slot") (simp_all only: option.case score_keeps_Some not_False_eq_True)
  from Cons.IH [OF this] show ?case by simp
qed

lemma loop_all_blocked:
  "\<forall>slot \<in> set slots. F slot = None \<Longrightarrow>
   foldl (\<lambda>acc slot. case F slot of None \<Rightarrow> acc
            | Some cand \<Rightarrow> Radar_score furthest acc cand) acc slots = acc"
  by (induction slots arbitrary: acc) simp_all

text \<open>A distance beats the sentinel.\<close>

lemma score_sentinel:
  "Radar_score furthest (Radar_initial_best furthest, None) (obj, d) =
     (if (if furthest then 0 < d else d < 100000) then (d, Some obj)
      else (Radar_initial_best furthest, None))"
  by (simp add: Radar_score_def Radar_initial_best_def)

lemma loop_finds:
  assumes "slot \<in> set slots" and "F slot = Some (obj, d)"
    and "if furthest then 0 < d else d < 100000"
    and "snd acc = None \<longrightarrow> fst acc = Radar_initial_best furthest"
  shows "snd (foldl (\<lambda>acc slot. case F slot of None \<Rightarrow> acc
                       | Some cand \<Rightarrow> Radar_score furthest acc cand) acc slots) \<noteq> None"
  using assms
proof (induction slots arbitrary: acc)
  case Nil
  then show ?case by simp
next
  case (Cons x xs)
  let ?acc' = "case F x of None \<Rightarrow> acc | Some cand \<Rightarrow> Radar_score furthest acc cand"
  have inv': "snd ?acc' = None \<longrightarrow> fst ?acc' = Radar_initial_best furthest"
    using Cons.prems(4)
    by (cases acc) (auto simp: Radar_score_def split: option.splits if_splits)
  show ?case
  proof (cases "x = slot")
    case True
    have "snd ?acc' \<noteq> None"
    proof (cases "snd acc")
      case None
      with Cons.prems(4) have "acc = (Radar_initial_best furthest, None)"
        by (cases acc) simp
      with True Cons.prems(2,3) show ?thesis
        by (simp add: score_sentinel)
    next
      case (Some a)
      with True Cons.prems(2) show ?thesis by (simp add: score_keeps_Some)
    qed
    then show ?thesis by (simp add: loop_keeps_Some)
  next
    case False
    with Cons.prems(1) have "slot \<in> set xs" by simp
    from Cons.IH [OF this Cons.prems(2,3) inv'] show ?thesis by simp
  qed
qed

lemma Radar_step_fun:
  "Radar_step ext pThis iPos iAngle type focus minDist maxDist furthest
     filter_team filter_flying filter_enemy cbotTypes =
   (\<lambda>acc slot.
      case Radar_filters ext pThis iPos iAngle type focus minDist maxDist
             filter_team filter_flying filter_enemy cbotTypes slot of
        None \<Rightarrow> acc
      | Some cand \<Rightarrow> Radar_score furthest acc cand)"
  by (intro ext) (simp add: Radar_step_def)

lemma Radar_filters_None [simp]:
  "Radar_filters ext pThis iPos iAngle type focus minDist maxDist
     filter_team filter_flying filter_enemy cbotTypes None = None"
  by (simp add: Radar_filters_def)

lemma Radar_result:
  assumes "Radar ext s pThis thisPosition thisAngle type angle focus minDist maxDist furthest
             rfilter cbotTypes = Some r"
  shows "(\<exists>k. (k, Some r) \<in> set (m_objects s)) \<and>
         Radar_passes ext pThis thisPosition thisAngle type angle focus minDist maxDist
           rfilter cbotTypes r \<noteq> None"
proof -
  let ?F = "Radar_filters ext pThis thisPosition (NormAngle ext (thisAngle + angle)) type focus
       (minDist * g_unit ext) (maxDist * g_unit ext)
       (uint (rfilter AND 0xFF))
       (rfilter AND (FILTER_ONLYLANDING ext OR FILTER_ONLYFLYING ext))
       (rfilter AND (FILTER_FRIENDLY ext OR FILTER_ENEMY ext OR FILTER_NEUTRAL ext))
       cbotTypes"
  have F: "\<And>slot obj d. ?F slot = Some (obj, d) \<Longrightarrow> slot = Some obj"
    by (rule Radar_filters_slot)
  from assms have "snd (foldl (\<lambda>acc slot. case ?F slot of None \<Rightarrow> acc
                       | Some cand \<Rightarrow> Radar_score furthest acc cand)
                    (Radar_initial_best furthest, None) (map snd (m_objects s))) = Some r"
    by (simp add: Radar_def Radar_step_fun Let_def)
  from loop_result [of ?F, OF F this]
  have "Some r \<in> set (map snd (m_objects s)) \<and> ?F (Some r) \<noteq> None"
    by simp
  then show ?thesis
    by (force simp: Radar_passes_def)
qed

lemma Radar_finds:
  assumes "(k, Some obj) \<in> set (m_objects s)"
    and "Radar_passes ext pThis thisPosition thisAngle type angle focus minDist maxDist
           rfilter cbotTypes obj = Some (obj', d)"
    and "if furthest then 0 < d else d < 100000"
  shows "Radar ext s pThis thisPosition thisAngle type angle focus minDist maxDist furthest
             rfilter cbotTypes \<noteq> None"
proof -
  let ?F = "Radar_filters ext pThis thisPosition (NormAngle ext (thisAngle + angle)) type focus
       (minDist * g_unit ext) (maxDist * g_unit ext)
       (uint (rfilter AND 0xFF))
       (rfilter AND (FILTER_ONLYLANDING ext OR FILTER_ONLYFLYING ext))
       (rfilter AND (FILTER_FRIENDLY ext OR FILTER_ENEMY ext OR FILTER_NEUTRAL ext))
       cbotTypes"
  have m: "Some obj \<in> set (map snd (m_objects s))"
    using assms(1) by force
  have p: "?F (Some obj) = Some (obj', d)"
    using assms(2) by (simp add: Radar_passes_def)
  have "snd (foldl (\<lambda>acc slot. case ?F slot of None \<Rightarrow> acc
                       | Some cand \<Rightarrow> Radar_score furthest acc cand)
                    (Radar_initial_best furthest, None) (map snd (m_objects s))) \<noteq> None"
    by (rule loop_finds [where F = ?F, OF m p assms(3)]) simp
  then show ?thesis
    by (simp add: Radar_def Radar_step_fun Let_def)
qed

lemma Radar_no_candidate:
  assumes "\<And>k obj. (k, Some obj) \<in> set (m_objects s) \<Longrightarrow>
      Radar_passes ext pThis thisPosition thisAngle type angle focus minDist maxDist
           rfilter cbotTypes obj = None"
  shows "Radar ext s pThis thisPosition thisAngle type angle focus minDist maxDist furthest
             rfilter cbotTypes = None"
proof (rule ccontr)
  assume "Radar ext s pThis thisPosition thisAngle type angle focus minDist maxDist furthest
             rfilter cbotTypes \<noteq> None"
  then obtain r where "Radar ext s pThis thisPosition thisAngle type angle focus minDist maxDist furthest
             rfilter cbotTypes = Some r" by blast
  from Radar_result [OF this]
  obtain k where "(k, Some r) \<in> set (m_objects s)"
    and "Radar_passes ext pThis thisPosition thisAngle type angle focus minDist maxDist
           rfilter cbotTypes r \<noteq> None" by blast
  with assms [of k r] show False by simp
qed

lemma Radar_passes_category:
  "Radar_passes ext pThis thisPosition thisAngle type angle focus minDist maxDist
           rfilter cbotTypes obj \<noteq> None \<Longrightarrow> \<not> category_continue type (radar_oType cbotTypes obj)"
  unfolding Radar_passes_def using Radar_filters_category by blast

lemma Radar_passes_blocked:
  "category_continue type (radar_oType cbotTypes obj) \<Longrightarrow>
   Radar_passes ext pThis thisPosition thisAngle type angle focus minDist maxDist
           rfilter cbotTypes obj = None"
  unfolding Radar_passes_def by (rule Radar_filters_blocked)

lemma cbot_type_system:
  "cbot_type t = OBJECT_TOTO \<longleftrightarrow> t = OBJECT_TOTO"
  "cbot_type t = OBJECT_CONTROLLER \<longleftrightarrow> t = OBJECT_CONTROLLER"
  by (auto simp: cbot_type_def Let_def)

lemma cbot_type_not_variant:
  "cbot_type t \<noteq> OBJECT_RUINmobilew2" "cbot_type t \<noteq> OBJECT_RUINmobilet1"
  "cbot_type t \<noteq> OBJECT_RUINmobilet2" "cbot_type t \<noteq> OBJECT_RUINmobiler1"
  "cbot_type t \<noteq> OBJECT_RUINmobiler2"
  by (auto simp: cbot_type_def Let_def)

lemma first_candidate:
  assumes "\<forall>slot \<in> set pre. Radar_filters ext pThis iPos iAngle type focus minDist maxDist
              filter_team filter_flying filter_enemy cbotTypes slot = None"
    and "Radar_filters ext pThis iPos iAngle type focus minDist maxDist
              filter_team filter_flying filter_enemy cbotTypes slot = Some (pObj, d)"
  shows "foldl (Radar_step ext pThis iPos iAngle type focus minDist maxDist furthest
                  filter_team filter_flying filter_enemy cbotTypes)
           (Radar_initial_best furthest, None) (pre @ [slot]) =
         (if (if furthest then 0 < d else d < 100000) then (d, Some pObj)
          else (Radar_initial_best furthest, None))"
  using assms
  by (simp add: Radar_step_fun loop_all_blocked score_sentinel)

lemma ids_match_mem: "ids_match m \<Longrightarrow> (k, Some obj) \<in> set m \<Longrightarrow> GetID obj = k"
  by (auto simp: ids_match_def list_all_iff)

text \<open>Evaluation in the concrete world.\<close>

lemma planar_distance_x_axis [simp]:
  "planar_distance \<lparr>vec_x = a, vec_y = u, vec_z = c\<rparr> \<lparr>vec_x = b, vec_y = v, vec_z = c\<rparr> = \<bar>a - b\<bar>"
  by (simp add: planar_distance_def)

lemma example_externals_sel [simp]:
  "g_unit example_externals = 4"
  "NormAngle example_externals = (\<lambda>a. a)"
  "DistanceProjected example_externals = planar_distance"
  "RotateAngle example_externals = (\<lambda>u v. 0)"
  "TestAngle example_externals = (\<lambda>a lo hi. lo \<le> a \<and> a \<le> hi)"
  "IsObjectBeingTransported example_externals = (\<lambda>pObj. False)"
  "FILTER_NONE example_externals = 0"
  "FILTER_ONLYLANDING example_externals = 256"
  "FILTER_ONLYFLYING example_externals = 512"
  "FILTER_FRIENDLY example_externals = 1024"
  "FILTER_ENEMY example_externals = 2048"
  "FILTER_NEUTRAL example_externals = 4096"
  by (simp_all add: example_externals_def)

lemmas Radar_eval =
  Radar_def Radar_passes_def Radar_step_def Radar_filters_def Radar_score_def
  Radar_initial_best_def category_continue_def radar_oType_def cbot_type_def Let_def Vector0_def

section \<open>The invariants of the registry\<close>

text \<open>
  The theorems below assume of a registry that its keys ascend (\<open>map_inv\<close>) and, in
  one place, that its objects sit under their own ids (\<open>ids_match\<close>). Both hold when
  the manager is constructed, and every operation keeps them, the second one for a
  factory that gives each object the id of its parameters.
\<close>

lemma ids_match_map_reset: "ids_match m \<Longrightarrow> ids_match (map_reset k m)"
  by (induction m) (auto simp: ids_match_def)

lemma ids_match_map_assign:
  "ids_match m \<Longrightarrow> GetID obj = k \<Longrightarrow> ids_match (map_assign k (Some obj) m)"
  by (induction m) (auto simp: ids_match_def)

lemma invariants_initial: "map_inv (m_objects CObjectManager0) \<and> ids_match (m_objects CObjectManager0)"
  by (simp add: CObjectManager0_def map_inv_def ids_match_def)

lemma invariants_DeleteObject:
  "map_inv (m_objects s) \<Longrightarrow> map_inv (m_objects (snd (DeleteObject e s)))"
  "ids_match (m_objects s) \<Longrightarrow> ids_match (m_objects (snd (DeleteObject e s)))"
  by (auto simp: DeleteObject_def map_inv_map_reset ids_match_map_reset split: option.splits)

lemma invariants_CleanRemovedObjects:
  "ids_match (m_objects s) \<Longrightarrow> ids_match (m_objects (CleanRemovedObjects s))"
  by (auto simp: CleanRemovedObjects_def ids_match_def split: list.splits)

lemma invariants_CreateObject:
  assumes "CreateObject ext params s = Returned obj s'"
  shows "map_inv (m_objects s) \<Longrightarrow> map_inv (m_objects s')"
    and "ids_match (m_objects s) \<Longrightarrow>
         (\<And>p o'. m_objectFactory ext p = Some o' \<Longrightarrow> GetID o' = params_id p) \<Longrightarrow>
         ids_match (m_objects s')"
  using assms
  by (auto simp: CreateObject_def map_inv_map_assign ids_match_map_assign
      split: if_splits option.splits)

section \<open>Cleaning removed objects\<close>

text \<open>
  Claim C2. One call of \<^verbatim>\<open>CleanRemovedObjects\<close> should erase the first empty slot it
  finds from the beginning of the registry, so the key of the only empty slot of a
  registry should be gone after one call. The function looks at the first entry only:
  two objects are made, the second is deleted, and the key 1 of its empty slot is still
  there after one call and after any number \<open>n\<close> of calls, although each call has
  cleared \<^verbatim>\<open>m_shouldCleanRemovedObjects\<close>.
\<close>

theorem CleanRemovedObjects_leaves_empty_slot:
  "CreateObject example_externals (example_params OBJECT_SCRAP1 0 0 (- 1)) CObjectManager0 =
     Returned (example_object 0 OBJECT_SCRAP1 0 0) one_object \<and>
   CreateObject example_externals (example_params OBJECT_SCRAP1 5 0 (- 1)) one_object =
     Returned (example_object 1 OBJECT_SCRAP1 5 0) two_objects \<and>
   DeleteObject (example_object 1 OBJECT_SCRAP1 5 0) two_objects = (True, two_objects_deleted) \<and>
   length (filter (\<lambda>kv. snd kv = None) (m_objects two_objects_deleted)) = 1 \<and>
   CleanRemovedObjects two_objects_deleted =
     two_objects_deleted\<lparr>m_shouldCleanRemovedObjects := False\<rparr> \<and>
   map_find (m_objects (CleanRemovedObjects two_objects_deleted)) 1 = Some None \<and>
   map_find (m_objects ((CleanRemovedObjects ^^ n) two_objects_deleted)) 1 = Some None"
proof -
  have c: "CleanRemovedObjects two_objects_deleted =
      two_objects_deleted\<lparr>m_shouldCleanRemovedObjects := False\<rparr>"
    by (simp add: CleanRemovedObjects_def two_objects_deleted_def)
  have "m_objects ((CleanRemovedObjects ^^ n) two_objects_deleted) = m_objects two_objects_deleted"
    by (rule Clean_funpow_live_first) (simp add: two_objects_deleted_def)
  then have n: "map_find (m_objects ((CleanRemovedObjects ^^ n) two_objects_deleted)) 1 = Some None"
    by (simp add: two_objects_deleted_def)
  have l: "length (filter (\<lambda>kv. snd kv = None) (m_objects two_objects_deleted)) = 1"
    by (simp add: two_objects_deleted_def)
  have f: "map_find (m_objects (CleanRemovedObjects two_objects_deleted)) 1 = Some None"
    by (simp add: c) (simp add: two_objects_deleted_def)
  show ?thesis
    using Create_first Create_second DeleteObject_two_objects c n l f by simp
qed

section \<open>Lookup after deletion\<close>

text \<open>
  Claim C9. Right after \<^verbatim>\<open>DeleteObject(e)\<close> has returned true, and before any
  \<^verbatim>\<open>CleanRemovedObjects\<close>, \<^verbatim>\<open>GetObjectById\<close> of the id of \<open>e\<close> returns
  \<^verbatim>\<open>nullptr\<close>: the key is still in the map, its slot is empty, and the lookup answers
  as it does once the key is gone.
\<close>

theorem DeleteObject_then_GetObjectById:
  assumes "is_int (GetID e)" and "DeleteObject e s = (True, s')"
  shows "GetObjectById s' (to_unsigned (GetID e)) = None \<and>
         map_find (m_objects s') (GetID e) = Some None \<and>
         GetObjectById (s'\<lparr>m_objects := filter (\<lambda>kv. fst kv \<noteq> GetID e) (m_objects s')\<rparr>)
           (to_unsigned (GetID e)) = None"
proof -
  from assms(2) have found: "map_find (m_objects s) (GetID e) \<noteq> None"
    and s': "s' = s\<lparr>m_objects := map_reset (GetID e) (m_objects s),
                      m_shouldCleanRemovedObjects := True\<rparr>"
    by (auto simp: DeleteObject_def split: option.splits)
  have tomb: "map_find (m_objects s') (GetID e) = Some None"
    using found by (simp add: s' map_find_map_reset_same)
  have absent: "map_find (filter (\<lambda>kv. fst kv \<noteq> GetID e) (m_objects s')) (GetID e) = None"
    by (auto simp: map_find_None_iff)
  show ?thesis
    using tomb absent by (simp add: GetObjectById_def sint_to_unsigned [OF assms(1)])
qed

theorem DeleteObject_then_GetObjectById_witness:
  "is_int (GetID (example_object 1 OBJECT_SCRAP1 5 0)) \<and>
   DeleteObject (example_object 1 OBJECT_SCRAP1 5 0) two_objects = (True, two_objects_deleted) \<and>
   GetObjectById two_objects (to_unsigned 1) = Some (example_object 1 OBJECT_SCRAP1 5 0) \<and>
   GetObjectById two_objects_deleted (to_unsigned 1) = None \<and>
   map_find (m_objects two_objects_deleted) 1 = Some None"
proof -
  have i: "is_int (GetID (example_object 1 OBJECT_SCRAP1 5 0))"
    by simp
  have g: "GetObjectById two_objects (to_unsigned 1) = Some (example_object 1 OBJECT_SCRAP1 5 0)"
    by (simp add: GetObjectById_def two_objects_def)
  show ?thesis
    using DeleteObject_then_GetObjectById [OF i DeleteObject_two_objects] g
    by (simp add: DeleteObject_two_objects)
qed

text \<open>
  Claim C3. For a live entity \<open>e\<close> of the registry, after \<^verbatim>\<open>DeleteObject(e)\<close> and
  then any number \<open>n\<close> of calls of \<^verbatim>\<open>CleanRemovedObjects\<close>, \<^verbatim>\<open>GetObjectById\<close> of the
  id of \<open>e\<close> returns \<^verbatim>\<open>nullptr\<close>; and when these calls have drained the empty slots,
  the key of \<open>e\<close> is gone from the map.
\<close>

theorem DeleteObject_Clean_GetObjectById:
  assumes "map_inv (m_objects s)" and "is_int (GetID e)"
    and "map_find (m_objects s) (GetID e) = Some (Some e)"
  shows "fst (DeleteObject e s) \<and>
         GetObjectById ((CleanRemovedObjects ^^ n) (snd (DeleteObject e s)))
           (to_unsigned (GetID e)) = None \<and>
         (list_all (\<lambda>kv. snd kv \<noteq> None)
            (m_objects ((CleanRemovedObjects ^^ n) (snd (DeleteObject e s)))) \<longrightarrow>
          map_find (m_objects ((CleanRemovedObjects ^^ n) (snd (DeleteObject e s)))) (GetID e) =
            None)"
proof -
  let ?s' = "s\<lparr>m_objects := map_reset (GetID e) (m_objects s),
                m_shouldCleanRemovedObjects := True\<rparr>"
  let ?t = "(CleanRemovedObjects ^^ n) ?s'"
  have d: "DeleteObject e s = (True, ?s')"
    using assms(3) by (simp add: DeleteObject_def)
  have inv: "map_inv (m_objects ?s')"
    using assms(1) by (simp add: map_inv_map_reset)
  have "GetObjectById ?s' (to_unsigned (GetID e)) = None"
    using assms(3)
    by (simp add: GetObjectById_def sint_to_unsigned [OF assms(2)] map_find_map_reset_same)
  with inv have none: "GetObjectById ?t (to_unsigned (GetID e)) = None"
    using GetObjectById_Clean_funpow by blast
  have "map_find (m_objects ?t) (GetID e) = None"
    if drained: "list_all (\<lambda>kv. snd kv \<noteq> None) (m_objects ?t)"
  proof (rule ccontr)
    assume "map_find (m_objects ?t) (GetID e) \<noteq> None"
    with none have "map_find (m_objects ?t) (GetID e) = Some None"
      by (auto simp: GetObjectById_def sint_to_unsigned [OF assms(2)] split: option.splits)
    then have "(GetID e, None) \<in> set (m_objects ?t)"
      by (rule map_find_Some_mem)
    with drained show False
      by (auto simp: list_all_iff)
  qed
  with d none show ?thesis by simp
qed

theorem DeleteObject_Clean_GetObjectById_witness:
  "map_inv (m_objects two_objects) \<and> is_int (GetID (example_object 0 OBJECT_SCRAP1 0 0)) \<and>
   map_find (m_objects two_objects) (GetID (example_object 0 OBJECT_SCRAP1 0 0)) =
     Some (Some (example_object 0 OBJECT_SCRAP1 0 0)) \<and>
   m_objects ((CleanRemovedObjects ^^ 1)
        (snd (DeleteObject (example_object 0 OBJECT_SCRAP1 0 0) two_objects))) =
     [(1, Some (example_object 1 OBJECT_SCRAP1 5 0))] \<and>
   GetObjectById
     ((CleanRemovedObjects ^^ 1)
        (snd (DeleteObject (example_object 0 OBJECT_SCRAP1 0 0) two_objects)))
     (to_unsigned 0) = None \<and>
   map_find
     (m_objects ((CleanRemovedObjects ^^ 1)
        (snd (DeleteObject (example_object 0 OBJECT_SCRAP1 0 0) two_objects)))) 0 = None"
proof -
  have inv: "map_inv (m_objects two_objects)"
    by (simp add: two_objects_def map_inv_def)
  have i: "is_int (GetID (example_object 0 OBJECT_SCRAP1 0 0))"
    by simp
  have f: "map_find (m_objects two_objects) (GetID (example_object 0 OBJECT_SCRAP1 0 0)) =
      Some (Some (example_object 0 OBJECT_SCRAP1 0 0))"
    by (simp add: two_objects_def)
  have c: "m_objects ((CleanRemovedObjects ^^ 1)
        (snd (DeleteObject (example_object 0 OBJECT_SCRAP1 0 0) two_objects))) =
     [(1, Some (example_object 1 OBJECT_SCRAP1 5 0))]"
    by (simp add: DeleteObject_def CleanRemovedObjects_def two_objects_def)
  show ?thesis
    using DeleteObject_Clean_GetObjectById [OF inv i f, of 1] inv f c by simp
qed

section \<open>Teams\<close>

text \<open>
  Claim C7. \<^verbatim>\<open>TeamExists(0)\<close> is true in every state of the registry, the empty one
  included; for a team other than 0 it is true exactly when some object of the registry
  is active and of that team.
\<close>

theorem TeamExists_correct:
  "TeamExists s 0 \<and> TeamExists CObjectManager0 0 \<and>
   (team \<noteq> 0 \<longrightarrow>
      TeamExists s team =
        (\<exists>k object. (k, Some object) \<in> set (m_objects s) \<and> GetActive object \<and> GetTeam object = team))"
  by (auto simp: TeamExists_def TeamExists_loop_iff set_GetAllObjects)

theorem TeamExists_correct_witness:
  "TeamExists two_teams 0 \<and> TeamExists two_teams 1 \<and> \<not> TeamExists two_teams 2 \<and>
   \<not> TeamExists CObjectManager0 1 \<and> (1::int) \<noteq> 0"
proof -
  have a: "TeamExists two_teams 1"
    by (simp add: TeamExists_def GetAllObjects_def List.map_filter_def two_teams_def)
  have b: "\<not> TeamExists two_teams 2"
    by (simp add: TeamExists_def GetAllObjects_def List.map_filter_def two_teams_def)
  have c: "\<not> TeamExists CObjectManager0 1"
    by (simp add: TeamExists_def GetAllObjects_def List.map_filter_def CObjectManager0_def)
  show ?thesis
    using TeamExists_correct [of two_teams 1] a b c by simp
qed

section \<open>Creating objects\<close>

text \<open>
  Claim C4. \<^verbatim>\<open>CreateObject(params)\<close> with \<^verbatim>\<open>params.id < 0\<close> gives the new object the
  value of \<^verbatim>\<open>m_nextId\<close> as its id and adds one to \<^verbatim>\<open>m_nextId\<close>; with
  \<^verbatim>\<open>params.id >= 0\<close> it uses that id, and the assertion fails when the id is in the
  registry already. When the factory returns no object, it throws the exception with
  the requested type; otherwise it stores the object under the id and returns it.
\<close>

theorem CreateObject_correct:
  "(params_id params < 0 \<and> m_nextId s < INT_MAX \<and> map_find (m_objects s) (m_nextId s) = None \<and>
      m_objectFactory ext (params\<lparr>params_id := m_nextId s\<rparr>) = Some obj \<longrightarrow>
      CreateObject ext params s =
        Returned obj (s\<lparr>m_nextId := m_nextId s + 1,
                         m_objects := map_assign (m_nextId s) (Some obj) (m_objects s)\<rparr>) \<and>
      map_find (map_assign (m_nextId s) (Some obj) (m_objects s)) (m_nextId s) = Some (Some obj) \<and>
      (is_int (m_nextId s) \<longrightarrow>
         GetObjectById
           (s\<lparr>m_nextId := m_nextId s + 1,
              m_objects := map_assign (m_nextId s) (Some obj) (m_objects s)\<rparr>)
           (to_unsigned (m_nextId s)) = Some obj)) \<and>
   (params_id params \<ge> 0 \<and> map_find (m_objects s) (params_id params) = None \<and>
      m_objectFactory ext params = Some obj \<longrightarrow>
      CreateObject ext params s =
        Returned obj (s\<lparr>m_objects := map_assign (params_id params) (Some obj) (m_objects s)\<rparr>) \<and>
      map_find (map_assign (params_id params) (Some obj) (m_objects s)) (params_id params) =
        Some (Some obj) \<and>
      (is_int (params_id params) \<longrightarrow>
         GetObjectById
           (s\<lparr>m_objects := map_assign (params_id params) (Some obj) (m_objects s)\<rparr>)
           (to_unsigned (params_id params)) = Some obj)) \<and>
   (params_id params \<ge> 0 \<and> map_find (m_objects s) (params_id params) \<noteq> None \<longrightarrow>
      CreateObject ext params s = AssertionFailed) \<and>
   (params_id params < 0 \<and> m_nextId s < INT_MAX \<and> map_find (m_objects s) (m_nextId s) = None \<and>
      m_objectFactory ext (params\<lparr>params_id := m_nextId s\<rparr>) = None \<longrightarrow>
      CreateObject ext params s =
        Thrown (CObjectCreateException ''Something went wrong in CObjectFactory''
                  (params_type params))
          (s\<lparr>m_nextId := m_nextId s + 1\<rparr>)) \<and>
   (params_id params \<ge> 0 \<and> map_find (m_objects s) (params_id params) = None \<and>
      m_objectFactory ext params = None \<longrightarrow>
      CreateObject ext params s =
        Thrown (CObjectCreateException ''Something went wrong in CObjectFactory''
                  (params_type params)) s)"
proof -
  have unset_ok: "CreateObject ext params s =
        Returned obj (s\<lparr>m_nextId := m_nextId s + 1,
                         m_objects := map_assign (m_nextId s) (Some obj) (m_objects s)\<rparr>)"
    if "params_id params < 0" "m_nextId s < INT_MAX" "map_find (m_objects s) (m_nextId s) = None"
      "m_objectFactory ext (params\<lparr>params_id := m_nextId s\<rparr>) = Some obj"
    using that by (simp add: CreateObject_def)
  have given_ok: "CreateObject ext params s =
        Returned obj (s\<lparr>m_objects := map_assign (params_id params) (Some obj) (m_objects s)\<rparr>)"
    if "params_id params \<ge> 0" "map_find (m_objects s) (params_id params) = None"
      "m_objectFactory ext params = Some obj"
    using that by (simp add: CreateObject_def)
  have stored: "map_find (map_assign k (Some obj) (m_objects s)) k = Some (Some obj)" for k
    by (simp add: map_find_map_assign)
  have lookup: "GetObjectById (t\<lparr>m_objects := map_assign k (Some obj) (m_objects s)\<rparr>)
      (to_unsigned k) = Some obj" if "is_int k" for k t
    by (simp add: GetObjectById_def sint_to_unsigned [OF that] map_find_map_assign)
  have duplicate: "CreateObject ext params s = AssertionFailed"
    if "params_id params \<ge> 0" "map_find (m_objects s) (params_id params) \<noteq> None"
    using that by (simp add: CreateObject_def)
  have unset_fail: "CreateObject ext params s =
        Thrown (CObjectCreateException ''Something went wrong in CObjectFactory''
                  (params_type params))
          (s\<lparr>m_nextId := m_nextId s + 1\<rparr>)"
    if "params_id params < 0" "m_nextId s < INT_MAX" "map_find (m_objects s) (m_nextId s) = None"
      "m_objectFactory ext (params\<lparr>params_id := m_nextId s\<rparr>) = None"
    using that by (simp add: CreateObject_def)
  have given_fail: "CreateObject ext params s =
        Thrown (CObjectCreateException ''Something went wrong in CObjectFactory''
                  (params_type params)) s"
    if "params_id params \<ge> 0" "map_find (m_objects s) (params_id params) = None"
      "m_objectFactory ext params = None"
    using that by (simp add: CreateObject_def)
  have unset_lookup: "GetObjectById
           (s\<lparr>m_nextId := m_nextId s + 1,
              m_objects := map_assign (m_nextId s) (Some obj) (m_objects s)\<rparr>)
           (to_unsigned (m_nextId s)) = Some obj" if "is_int (m_nextId s)"
    using lookup [OF that, of "s\<lparr>m_nextId := m_nextId s + 1\<rparr>"] by simp
  show ?thesis
    using unset_ok given_ok stored lookup duplicate unset_fail given_fail unset_lookup
    by simp
qed

theorem CreateObject_correct_witness:
  "CreateObject example_externals (example_params OBJECT_SCRAP1 5 0 (- 1)) one_object =
     Returned (example_object 1 OBJECT_SCRAP1 5 0) two_objects \<and>
   is_int (m_nextId one_object) \<and>
   GetObjectById two_objects (to_unsigned (m_nextId one_object)) =
     Some (example_object 1 OBJECT_SCRAP1 5 0) \<and>
   CreateObject example_externals (example_params OBJECT_SCRAP1 5 0 1) one_object =
     Returned (example_object 1 OBJECT_SCRAP1 5 0) (two_objects\<lparr>m_nextId := 1\<rparr>) \<and>
   CreateObject example_externals (example_params OBJECT_SCRAP1 5 0 0) one_object = AssertionFailed \<and>
   CreateObject example_externals (example_params OBJECT_NULL 5 0 (- 1)) one_object =
     Thrown (CObjectCreateException ''Something went wrong in CObjectFactory'' OBJECT_NULL)
       (one_object\<lparr>m_nextId := 2\<rparr>) \<and>
   CreateObject example_externals (example_params OBJECT_NULL 5 0 7) one_object =
     Thrown (CObjectCreateException ''Something went wrong in CObjectFactory'' OBJECT_NULL)
       one_object"
proof -
  have s: "m_nextId one_object = 1" "m_objects one_object = [(0, Some (example_object 0 OBJECT_SCRAP1 0 0))]"
    by (simp_all add: one_object_def)
  have t: "two_objects = one_object\<lparr>m_nextId := 2,
      m_objects := [(0, Some (example_object 0 OBJECT_SCRAP1 0 0)),
                    (1, Some (example_object 1 OBJECT_SCRAP1 5 0))]\<rparr>"
    by (simp add: two_objects_def one_object_def)
  show ?thesis
    using CreateObject_correct [of "example_params OBJECT_SCRAP1 5 0 (- 1)" one_object
            example_externals "example_object 1 OBJECT_SCRAP1 5 0"]
          CreateObject_correct [of "example_params OBJECT_SCRAP1 5 0 1" one_object
            example_externals "example_object 1 OBJECT_SCRAP1 5 0"]
          CreateObject_correct [of "example_params OBJECT_SCRAP1 5 0 0" one_object
            example_externals "example_object 1 OBJECT_SCRAP1 5 0"]
          CreateObject_correct [of "example_params OBJECT_NULL 5 0 (- 1)" one_object
            example_externals "example_object 1 OBJECT_SCRAP1 5 0"]
          CreateObject_correct [of "example_params OBJECT_NULL 5 0 7" one_object
            example_externals "example_object 1 OBJECT_SCRAP1 5 0"]
    by (simp add: s t GetObjectById_def)
qed

text \<open>
  Claim C10. When \<^verbatim>\<open>CreateObject\<close> is called with \<^verbatim>\<open>params.id < 0\<close> and the factory
  returns no object, it throws, the map is as before, and \<^verbatim>\<open>m_nextId\<close> is one more
  than before: the next creation with an unset id gets the id \<open>m_nextId s + 1\<close>, where
  without the failed call it gets \<open>m_nextId s\<close>, and the id \<open>m_nextId s\<close> is left unused.
\<close>

theorem CreateObject_failure_advances_counter:
  assumes unset: "params_id params < 0"
    and room: "m_nextId s < INT_MAX"
    and free: "map_find (m_objects s) (m_nextId s) = None"
    and fails: "m_objectFactory ext (params\<lparr>params_id := m_nextId s\<rparr>) = None"
    and unset2: "params_id params2 < 0"
    and without: "CreateObject ext params2 s = Returned obj1 s1"
    and after: "CreateObject ext params2 (s\<lparr>m_nextId := m_nextId s + 1\<rparr>) = Returned obj2 s2"
  shows "CreateObject ext params s =
           Thrown (CObjectCreateException ''Something went wrong in CObjectFactory''
                     (params_type params))
             (s\<lparr>m_nextId := m_nextId s + 1\<rparr>) \<and>
         m_objects (s\<lparr>m_nextId := m_nextId s + 1\<rparr>) = m_objects s \<and>
         m_objectFactory ext (params2\<lparr>params_id := m_nextId s\<rparr>) = Some obj1 \<and>
         map_find (m_objects s1) (m_nextId s) = Some (Some obj1) \<and>
         m_objectFactory ext (params2\<lparr>params_id := m_nextId s + 1\<rparr>) = Some obj2 \<and>
         map_find (m_objects s2) (m_nextId s + 1) = Some (Some obj2) \<and>
         map_find (m_objects s2) (m_nextId s) = None \<and>
         m_nextId s < m_nextId s + 1"
proof -
  have thrown: "CreateObject ext params s =
           Thrown (CObjectCreateException ''Something went wrong in CObjectFactory''
                     (params_type params))
             (s\<lparr>m_nextId := m_nextId s + 1\<rparr>)"
    using unset room free fails by (simp add: CreateObject_def)
  have w: "m_objectFactory ext (params2\<lparr>params_id := m_nextId s\<rparr>) = Some obj1 \<and>
      map_find (m_objects s1) (m_nextId s) = Some (Some obj1)"
    using without unset2 room free
    by (auto simp: CreateObject_def map_find_map_assign split: if_splits option.splits)
  have a: "m_objectFactory ext (params2\<lparr>params_id := m_nextId s + 1\<rparr>) = Some obj2 \<and>
      map_find (m_objects s2) (m_nextId s + 1) = Some (Some obj2) \<and>
      map_find (m_objects s2) (m_nextId s) = None"
    using after unset2 free
    by (auto simp: CreateObject_def map_find_map_assign split: if_splits option.splits)
  show ?thesis using thrown w a by simp
qed

theorem CreateObject_failure_advances_counter_witness:
  "params_id (example_params OBJECT_NULL 0 0 (- 1)) < 0 \<and>
   m_nextId one_object < INT_MAX \<and>
   map_find (m_objects one_object) (m_nextId one_object) = None \<and>
   CreateObject example_externals (example_params OBJECT_NULL 0 0 (- 1)) one_object =
     Thrown (CObjectCreateException ''Something went wrong in CObjectFactory'' OBJECT_NULL)
       (one_object\<lparr>m_nextId := 2\<rparr>) \<and>
   CreateObject example_externals (example_params OBJECT_SCRAP1 5 0 (- 1)) one_object =
     Returned (example_object 1 OBJECT_SCRAP1 5 0) two_objects \<and>
   CreateObject example_externals (example_params OBJECT_SCRAP1 5 0 (- 1)) (one_object\<lparr>m_nextId := 2\<rparr>) =
     Returned (example_object 2 OBJECT_SCRAP1 5 0)
       (one_object\<lparr>m_nextId := 3,
          m_objects := [(0, Some (example_object 0 OBJECT_SCRAP1 0 0)),
                        (2, Some (example_object 2 OBJECT_SCRAP1 5 0))]\<rparr>)"
proof -
  have s: "m_nextId one_object = 1" "m_objects one_object = [(0, Some (example_object 0 OBJECT_SCRAP1 0 0))]"
    by (simp_all add: one_object_def)
  have after: "CreateObject example_externals (example_params OBJECT_SCRAP1 5 0 (- 1))
        (one_object\<lparr>m_nextId := m_nextId one_object + 1\<rparr>) =
     Returned (example_object 2 OBJECT_SCRAP1 5 0)
       (one_object\<lparr>m_nextId := 3,
          m_objects := [(0, Some (example_object 0 OBJECT_SCRAP1 0 0)),
                        (2, Some (example_object 2 OBJECT_SCRAP1 5 0))]\<rparr>)"
    by (simp add: CreateObject_def s INT_MAX_def)
  have u: "params_id (example_params OBJECT_NULL 0 0 (- 1)) < 0" by simp
  have u2: "params_id (example_params OBJECT_SCRAP1 5 0 (- 1)) < 0" by simp
  have r: "m_nextId one_object < INT_MAX" by (simp add: s)
  have f: "map_find (m_objects one_object) (m_nextId one_object) = None" by (simp add: s)
  have n: "m_objectFactory example_externals
      ((example_params OBJECT_NULL 0 0 (- 1))\<lparr>params_id := m_nextId one_object\<rparr>) = None"
    by simp
  show ?thesis
    using CreateObject_failure_advances_counter [OF u r f n u2 Create_second after] after u r f
    by (simp add: s Create_second)
qed

section \<open>The radar: categories\<close>

text \<open>
  Claim C1, amended. With \<^verbatim>\<open>cbotTypes\<close> set, \<^verbatim>\<open>Radar\<close> normalises the type of the
  candidate only, never the requested types. A candidate of any ruin type is seen as
  \<^verbatim>\<open>OBJECT_RUINmobilew1\<close>, so it passes the category filter of a query for
  \<^verbatim>\<open>{OBJECT_RUINmobilew1}\<close>, where it passes all filters exactly when it passes them
  for the empty set. For a query for one other ruin type \<open>v\<close>, such as
  \<^verbatim>\<open>{OBJECT_RUINmobilew2}\<close>, no candidate passes the category filter, and \<^verbatim>\<open>Radar\<close>
  returns \<^verbatim>\<open>nullptr\<close> in every registry.
\<close>

theorem Radar_ruin_categories:
  "(GetType pObj \<in> {OBJECT_RUINmobilew1, OBJECT_RUINmobilew2, OBJECT_RUINmobilet1,
                      OBJECT_RUINmobilet2, OBJECT_RUINmobiler1, OBJECT_RUINmobiler2} \<longrightarrow>
      radar_oType True pObj = OBJECT_RUINmobilew1 \<and>
      \<not> category_continue [OBJECT_RUINmobilew1] (radar_oType True pObj) \<and>
      Radar_passes ext pThis thisPosition thisAngle [OBJECT_RUINmobilew1] angle focus
          minDist maxDist rfilter True pObj =
        Radar_passes ext pThis thisPosition thisAngle [] angle focus
          minDist maxDist rfilter True pObj) \<and>
   (v \<in> {OBJECT_RUINmobilew2, OBJECT_RUINmobilet1, OBJECT_RUINmobilet2,
           OBJECT_RUINmobiler1, OBJECT_RUINmobiler2} \<longrightarrow>
      category_continue [v] (radar_oType True pObj) \<and>
      Radar ext s pThis thisPosition thisAngle [v] angle focus minDist maxDist
        furthest rfilter True = None)"
proof -
  have blocked: "category_continue [v] (radar_oType True obj)"
    if "v \<in> {OBJECT_RUINmobilew2, OBJECT_RUINmobilet1, OBJECT_RUINmobilet2,
           OBJECT_RUINmobiler1, OBJECT_RUINmobiler2}" for obj
    using that by (auto simp: category_continue_def radar_oType_def cbot_type_not_variant)
  have none: "Radar ext s pThis thisPosition thisAngle [v] angle focus
      minDist maxDist furthest rfilter True = None"
    if "v \<in> {OBJECT_RUINmobilew2, OBJECT_RUINmobilet1, OBJECT_RUINmobilet2,
           OBJECT_RUINmobiler1, OBJECT_RUINmobiler2}"
    by (rule Radar_no_candidate) (rule Radar_passes_blocked [OF blocked [OF that]])
  have ruin: "radar_oType True pObj = OBJECT_RUINmobilew1"
    if "GetType pObj \<in> {OBJECT_RUINmobilew1, OBJECT_RUINmobilew2, OBJECT_RUINmobilet1,
                      OBJECT_RUINmobilet2, OBJECT_RUINmobiler1, OBJECT_RUINmobiler2}"
    using that by (auto simp: radar_oType_def cbot_type_def Let_def)
  have same: "Radar_passes ext pThis thisPosition thisAngle [OBJECT_RUINmobilew1] angle focus
          minDist maxDist rfilter True pObj =
        Radar_passes ext pThis thisPosition thisAngle [] angle focus
          minDist maxDist rfilter True pObj"
    if "radar_oType True pObj = OBJECT_RUINmobilew1"
    using that by (simp add: Radar_passes_def Radar_filters_def category_continue_def)
  have pass: "\<not> category_continue [OBJECT_RUINmobilew1] OBJECT_RUINmobilew1"
    by (simp add: category_continue_def)
  from blocked none ruin same pass show ?thesis by metis
qed

theorem Radar_ruin_categories_witness:
  "GetType (example_object 0 OBJECT_RUINmobilew2 5 0) \<in>
     {OBJECT_RUINmobilew1, OBJECT_RUINmobilew2, OBJECT_RUINmobilet1,
      OBJECT_RUINmobilet2, OBJECT_RUINmobiler1, OBJECT_RUINmobiler2} \<and>
   radar_oType True (example_object 0 OBJECT_RUINmobilew2 5 0) = OBJECT_RUINmobilew1 \<and>
   Radar_passes example_externals None Vector0 0 [OBJECT_RUINmobilew1] 0 (2 * pi) 0 100 0 True
       (example_object 0 OBJECT_RUINmobilew2 5 0) =
     Some (example_object 0 OBJECT_RUINmobilew2 5 0, 5) \<and>
   OBJECT_RUINmobilew2 \<in> {OBJECT_RUINmobilew2, OBJECT_RUINmobilet1, OBJECT_RUINmobilet2,
      OBJECT_RUINmobiler1, OBJECT_RUINmobiler2} \<and>
   category_continue [OBJECT_RUINmobilew2]
     (radar_oType True (example_object 0 OBJECT_RUINmobilew2 5 0)) \<and>
   Radar example_externals ruin_world None Vector0 0 [OBJECT_RUINmobilew2] 0 (2 * pi) 0 100
     False 0 True = None"
proof -
  have p: "Radar_passes example_externals None Vector0 0 [] 0 (2 * pi) 0 100 0 True
       (example_object 0 OBJECT_RUINmobilew2 5 0) =
     Some (example_object 0 OBJECT_RUINmobilew2 5 0, 5)"
    by (simp add: Radar_eval)
  note T = Radar_ruin_categories [where pObj = "example_object 0 OBJECT_RUINmobilew2 5 0"
        and ext = example_externals and pThis = None and thisPosition = Vector0
        and thisAngle = 0 and angle = 0 and focus = "2 * pi" and minDist = 0
        and maxDist = 100 and rfilter = 0 and s = ruin_world and furthest = False
        and v = OBJECT_RUINmobilew2]
  from T p show ?thesis by (simp add: category_continue_def)
qed

text \<open>
  The claim as it is written fails: the only object of the world is an
  \<^verbatim>\<open>OBJECT_RUINmobilew1\<close>, which the query for the empty set finds; the query for
  \<^verbatim>\<open>{OBJECT_RUINmobilew2}\<close> with \<^verbatim>\<open>cbotTypes\<close> set does not.
\<close>

theorem Radar_requested_variant_counterexample:
  "Radar example_externals ruin_world None Vector0 0 [OBJECT_RUINmobilew2] 0 (2 * pi) 0 100
     False 0 True = None \<and>
   Radar example_externals ruin_world None Vector0 0 [] 0 (2 * pi) 0 100
     False 0 True = Some (example_object 0 OBJECT_RUINmobilew1 5 0) \<and>
   category_continue [OBJECT_RUINmobilew2]
     (radar_oType True (example_object 0 OBJECT_RUINmobilew1 5 0))"
  by (simp add: Radar_eval ruin_world_def)

text \<open>
  Claim C6. For the empty requested set the category filter rejects the types
  \<^verbatim>\<open>OBJECT_TOTO\<close> and \<^verbatim>\<open>OBJECT_CONTROLLER\<close>: a candidate whose type, normalised or
  not, is one of them does not pass the filters of a query for the empty set. An object
  of such a type that \<^verbatim>\<open>Radar\<close> returns was asked for: the requested set is not empty
  and has this type in it.
\<close>

theorem Radar_system_categories:
  "category_continue [] OBJECT_TOTO \<and> category_continue [] OBJECT_CONTROLLER \<and>
   (radar_oType cbotTypes pObj \<in> {OBJECT_TOTO, OBJECT_CONTROLLER} \<longrightarrow>
      Radar_passes ext pThis thisPosition thisAngle [] angle focus minDist maxDist
        rfilter cbotTypes pObj = None) \<and>
   (Radar ext s pThis thisPosition thisAngle type angle focus minDist maxDist furthest
        rfilter cbotTypes = Some r \<and>
    radar_oType cbotTypes r \<in> {OBJECT_TOTO, OBJECT_CONTROLLER} \<longrightarrow>
      type \<noteq> [] \<and> radar_oType cbotTypes r \<in> set type \<and> GetType r \<in> set type)"
proof -
  have wild: "category_continue [] OBJECT_TOTO \<and> category_continue [] OBJECT_CONTROLLER"
    by (simp add: category_continue_def)
  have blocked: "Radar_passes ext pThis thisPosition thisAngle [] angle focus minDist maxDist
        rfilter cbotTypes pObj = None"
    if "radar_oType cbotTypes pObj \<in> {OBJECT_TOTO, OBJECT_CONTROLLER}"
    using that by (intro Radar_passes_blocked) (auto simp: category_continue_def)
  have asked: "type \<noteq> [] \<and> radar_oType cbotTypes r \<in> set type \<and> GetType r \<in> set type"
    if res: "Radar ext s pThis thisPosition thisAngle type angle focus minDist maxDist furthest
        rfilter cbotTypes = Some r"
      and sys: "radar_oType cbotTypes r \<in> {OBJECT_TOTO, OBJECT_CONTROLLER}"
  proof -
    from Radar_result [OF res]
    have "\<not> category_continue type (radar_oType cbotTypes r)"
      using Radar_passes_category by blast
    moreover have "radar_oType cbotTypes r = GetType r"
      using sys by (auto simp: radar_oType_def cbot_type_system split: if_splits)
    ultimately show ?thesis
      using sys by (auto simp: category_continue_def)
  qed
  from wild blocked asked show ?thesis by blast
qed

theorem Radar_system_categories_witness:
  "radar_oType False (example_object 0 OBJECT_TOTO 5 0) \<in> {OBJECT_TOTO, OBJECT_CONTROLLER} \<and>
   Radar example_externals toto_world None Vector0 0 [OBJECT_TOTO] 0 (2 * pi) 0 100 False 0 False =
     Some (example_object 0 OBJECT_TOTO 5 0) \<and>
   GetType (example_object 0 OBJECT_TOTO 5 0) \<in> set [OBJECT_TOTO] \<and>
   Radar_passes example_externals None Vector0 0 [] 0 (2 * pi) 0 100 0 False
     (example_object 0 OBJECT_TOTO 5 0) = None \<and>
   Radar example_externals toto_world None Vector0 0 [] 0 (2 * pi) 0 100 False 0 False = None"
proof -
  have r: "Radar example_externals toto_world None Vector0 0 [OBJECT_TOTO] 0 (2 * pi) 0 100
      False 0 False = Some (example_object 0 OBJECT_TOTO 5 0)"
    by (simp add: Radar_eval toto_world_def)
  have t: "radar_oType False (example_object 0 OBJECT_TOTO 5 0) \<in> {OBJECT_TOTO, OBJECT_CONTROLLER}"
    by (simp add: radar_oType_def)
  have n: "Radar example_externals toto_world None Vector0 0 [] 0 (2 * pi) 0 100 False 0 False = None"
    by (simp add: Radar_eval toto_world_def)
  note T = Radar_system_categories [where cbotTypes = False
      and pObj = "example_object 0 OBJECT_TOTO 5 0" and r = "example_object 0 OBJECT_TOTO 5 0"
      and ext = example_externals and pThis = None and thisPosition = Vector0
      and thisAngle = 0 and angle = 0 and focus = "2 * pi" and minDist = 0 and maxDist = 100
      and rfilter = 0 and s = toto_world and type = "[OBJECT_TOTO]" and furthest = False]
  from T r t n show ?thesis by simp
qed

section \<open>The radar: scoring\<close>

text \<open>
  Claim C5, amended. The sentinel is 100000 when the nearest object is asked for and 0
  when the furthest is. The first candidate that passes all filters replaces it exactly
  when its distance \<open>d\<close> is less than 100000 (nearest) or more than 0 (furthest). When
  a candidate of such a distance passes all filters, \<^verbatim>\<open>Radar\<close> returns an object.
\<close>

theorem Radar_sentinel:
  "Radar_initial_best False = 100000 \<and> Radar_initial_best True = 0 \<and>
   ((\<forall>slot \<in> set pre.
        Radar_filters ext pThis iPos iAngle type focus minDist' maxDist'
          filter_team filter_flying filter_enemy cbotTypes slot = None) \<and>
    Radar_filters ext pThis iPos iAngle type focus minDist' maxDist'
      filter_team filter_flying filter_enemy cbotTypes slot = Some (pObj, d) \<longrightarrow>
    foldl (Radar_step ext pThis iPos iAngle type focus minDist' maxDist' furthest
             filter_team filter_flying filter_enemy cbotTypes)
      (Radar_initial_best furthest, None) (pre @ [slot]) =
    (if (if furthest then 0 < d else d < 100000) then (d, Some pObj)
     else (Radar_initial_best furthest, None))) \<and>
   ((k, Some pObj) \<in> set (m_objects s) \<and>
    Radar_passes ext pThis iPos thisAngle type angle focus minDist maxDist
      rfilter cbotTypes pObj = Some (pObj, d) \<and>
    (if furthest then 0 < d else d < 100000) \<longrightarrow>
    Radar ext s pThis iPos thisAngle type angle focus minDist maxDist furthest
      rfilter cbotTypes \<noteq> None)"
proof -
  have found: "Radar ext s pThis iPos thisAngle type angle focus minDist maxDist furthest
      rfilter cbotTypes \<noteq> None"
    if "(k, Some pObj) \<in> set (m_objects s)"
      and "Radar_passes ext pThis iPos thisAngle type angle focus minDist maxDist
        rfilter cbotTypes pObj = Some (pObj, d)"
      and "if furthest then 0 < d else d < 100000"
    using that by (rule Radar_finds)
  have first: "foldl (Radar_step ext pThis iPos iAngle type focus minDist' maxDist' furthest
             filter_team filter_flying filter_enemy cbotTypes)
      (Radar_initial_best furthest, None) (pre @ [slot]) =
    (if (if furthest then 0 < d else d < 100000) then (d, Some pObj)
     else (Radar_initial_best furthest, None))"
    if "\<forall>slot \<in> set pre.
        Radar_filters ext pThis iPos iAngle type focus minDist' maxDist'
          filter_team filter_flying filter_enemy cbotTypes slot = None"
      and "Radar_filters ext pThis iPos iAngle type focus minDist' maxDist'
        filter_team filter_flying filter_enemy cbotTypes slot = Some (pObj, d)"
    using that by (rule first_candidate)
  have sentinel: "Radar_initial_best False = 100000 \<and> Radar_initial_best True = 0"
    by (simp add: Radar_initial_best_def)
  from sentinel first found show ?thesis by blast
qed

theorem Radar_sentinel_witness:
  "Radar_filters example_externals None Vector0 0 [] (2 * pi) 0 400 0 0 0 False None = None \<and>
   Radar_filters example_externals None Vector0 0 [] (2 * pi) 0 400 0 0 0 False
      (Some (example_object 0 OBJECT_RUINmobilew1 5 0)) =
     Some (example_object 0 OBJECT_RUINmobilew1 5 0, 5) \<and>
   foldl (Radar_step example_externals None Vector0 0 [] (2 * pi) 0 400 True 0 0 0 False)
      (Radar_initial_best True, None) ([None] @ [Some (example_object 0 OBJECT_RUINmobilew1 5 0)]) =
     (5, Some (example_object 0 OBJECT_RUINmobilew1 5 0)) \<and>
   (0, Some (example_object 0 OBJECT_RUINmobilew1 5 0)) \<in> set (m_objects ruin_world) \<and>
   Radar_passes example_externals None Vector0 0 [] 0 (2 * pi) 0 100 0 False
      (example_object 0 OBJECT_RUINmobilew1 5 0) =
     Some (example_object 0 OBJECT_RUINmobilew1 5 0, 5) \<and>
   (0::real) < 5 \<and>
   Radar example_externals ruin_world None Vector0 0 [] 0 (2 * pi) 0 100 True 0 False =
     Some (example_object 0 OBJECT_RUINmobilew1 5 0)"
proof -
  have b: "\<forall>slot \<in> set [None].
      Radar_filters example_externals None Vector0 0 [] (2 * pi) 0 400 0 0 0 False slot = None"
    by simp
  have f: "Radar_filters example_externals None Vector0 0 [] (2 * pi) 0 400 0 0 0 False
      (Some (example_object 0 OBJECT_RUINmobilew1 5 0)) =
     Some (example_object 0 OBJECT_RUINmobilew1 5 0, 5)"
    by (simp add: Radar_eval)
  have m: "(0, Some (example_object 0 OBJECT_RUINmobilew1 5 0)) \<in> set (m_objects ruin_world)"
    by (simp add: ruin_world_def)
  have p: "Radar_passes example_externals None Vector0 0 [] 0 (2 * pi) 0 100 0 False
      (example_object 0 OBJECT_RUINmobilew1 5 0) =
     Some (example_object 0 OBJECT_RUINmobilew1 5 0, 5)"
    by (simp add: Radar_eval)
  have r: "Radar example_externals ruin_world None Vector0 0 [] 0 (2 * pi) 0 100 True 0 False =
     Some (example_object 0 OBJECT_RUINmobilew1 5 0)"
    by (simp add: Radar_eval ruin_world_def)
  note T = Radar_sentinel [where furthest = True
        and pObj = "example_object 0 OBJECT_RUINmobilew1 5 0" and d = 5
        and pre = "[None]" and slot = "Some (example_object 0 OBJECT_RUINmobilew1 5 0)"
        and ext = example_externals and pThis = None
        and iPos = Vector0 and iAngle = 0 and type = "[]"
        and focus = "2 * pi" and minDist' = 0 and maxDist' = 400
        and filter_team = 0 and filter_flying = 0 and filter_enemy = 0
        and cbotTypes = False and k = 0 and s = ruin_world and thisAngle = 0
        and angle = 0 and minDist = 0 and maxDist = 100 and rfilter = 0]
  from T b f m p r show ?thesis by (simp add: Radar_initial_best_def)
qed

text \<open>
  The claim as it is written fails. Asked for the furthest object from the place where
  the only object is, \<^verbatim>\<open>Radar\<close> returns \<^verbatim>\<open>nullptr\<close>, although the object passes all
  filters, at distance 0. Asked for the nearest object within 25000 units of 4, it
  returns \<^verbatim>\<open>nullptr\<close> for the object at distance 100000 that passes all filters.
\<close>

theorem Radar_sentinel_counterexample:
  "Radar_passes example_externals None Vector0 0 [] 0 (2 * pi) 0 100 0 False
     (example_object 0 OBJECT_SCRAP1 0 0) = Some (example_object 0 OBJECT_SCRAP1 0 0, 0) \<and>
   Radar example_externals one_object None Vector0 0 [] 0 (2 * pi) 0 100 True 0 False = None \<and>
   Radar_passes example_externals None Vector0 0 [] 0 (2 * pi) 0 25000 0 False
     (example_object 0 OBJECT_SCRAP1 100000 0) =
     Some (example_object 0 OBJECT_SCRAP1 100000 0, 100000) \<and>
   Radar example_externals far_object None Vector0 0 [] 0 (2 * pi) 0 25000 False 0 False = None"
  by (simp add: Radar_eval one_object_def far_object_def)

section \<open>The radar: removed objects\<close>

text \<open>
  Claim C8. \<^verbatim>\<open>DeleteObject(e)\<close> returning true leaves the key of \<open>e\<close> with an empty
  slot. In every registry \<open>t\<close> where this slot is still there and empty, an object that
  \<^verbatim>\<open>Radar\<close> returns comes from another slot, one that is not empty; where the objects
  sit under their own ids, it is not \<open>e\<close>.
\<close>

theorem Radar_skips_removed:
  "(DeleteObject e s = (True, s') \<longrightarrow> map_find (m_objects s') (GetID e) = Some None) \<and>
   (map_inv (m_objects t) \<and> map_find (m_objects t) (GetID e) = Some None \<and>
    Radar ext t pThis thisPosition thisAngle type angle focus minDist maxDist furthest
      rfilter cbotTypes = Some r \<longrightarrow>
    (\<exists>k. k \<noteq> GetID e \<and> map_find (m_objects t) k = Some (Some r)) \<and>
    (ids_match (m_objects t) \<longrightarrow> r \<noteq> e))"
proof -
  have tomb: "map_find (m_objects s') (GetID e) = Some None"
    if "DeleteObject e s = (True, s')"
    using that
    by (auto simp: DeleteObject_def map_find_map_reset_same split: option.splits)
  have other: "(\<exists>k. k \<noteq> GetID e \<and> map_find (m_objects t) k = Some (Some r)) \<and>
      (ids_match (m_objects t) \<longrightarrow> r \<noteq> e)"
    if inv: "map_inv (m_objects t)"
      and removed: "map_find (m_objects t) (GetID e) = Some None"
      and res: "Radar ext t pThis thisPosition thisAngle type angle focus minDist maxDist
        furthest rfilter cbotTypes = Some r"
  proof -
    from Radar_result [OF res] obtain k where mem: "(k, Some r) \<in> set (m_objects t)"
      by blast
    with inv have k: "map_find (m_objects t) k = Some (Some r)"
      by (rule map_inv_mem_find)
    with removed have ne: "k \<noteq> GetID e" by auto
    from mem have "ids_match (m_objects t) \<longrightarrow> GetID r = k"
      by (auto dest: ids_match_mem)
    with ne have "ids_match (m_objects t) \<longrightarrow> r \<noteq> e" by auto
    with k ne show ?thesis by blast
  qed
  from tomb other show ?thesis by blast
qed

theorem Radar_skips_removed_witness:
  "DeleteObject (example_object 1 OBJECT_SCRAP1 5 0) two_objects = (True, two_objects_deleted) \<and>
   map_inv (m_objects two_objects_deleted) \<and> ids_match (m_objects two_objects_deleted) \<and>
   map_find (m_objects two_objects_deleted) (GetID (example_object 1 OBJECT_SCRAP1 5 0)) =
     Some None \<and>
   Radar example_externals two_objects None \<lparr>vec_x = 5, vec_y = 0, vec_z = 0\<rparr> 0 [] 0
       (2 * pi) 0 100 False 0 False = Some (example_object 1 OBJECT_SCRAP1 5 0) \<and>
   Radar example_externals two_objects_deleted None \<lparr>vec_x = 5, vec_y = 0, vec_z = 0\<rparr> 0 [] 0
       (2 * pi) 0 100 False 0 False = Some (example_object 0 OBJECT_SCRAP1 0 0) \<and>
   example_object 0 OBJECT_SCRAP1 0 0 \<noteq> example_object 1 OBJECT_SCRAP1 5 0"
proof -
  have inv: "map_inv (m_objects two_objects_deleted)"
    by (simp add: two_objects_deleted_def map_inv_def)
  have ids: "ids_match (m_objects two_objects_deleted)"
    by (simp add: two_objects_deleted_def ids_match_def)
  have before: "Radar example_externals two_objects None \<lparr>vec_x = 5, vec_y = 0, vec_z = 0\<rparr> 0 [] 0
       (2 * pi) 0 100 False 0 False = Some (example_object 1 OBJECT_SCRAP1 5 0)"
    by (simp add: Radar_eval two_objects_def)
  have res: "Radar example_externals two_objects_deleted None \<lparr>vec_x = 5, vec_y = 0, vec_z = 0\<rparr> 0 [] 0
       (2 * pi) 0 100 False 0 False = Some (example_object 0 OBJECT_SCRAP1 0 0)"
    by (simp add: Radar_eval two_objects_deleted_def)
  note T = Radar_skips_removed [where e = "example_object 1 OBJECT_SCRAP1 5 0"
      and s = two_objects and s' = two_objects_deleted and t = two_objects_deleted
      and ext = example_externals and pThis = None
      and thisPosition = "\<lparr>vec_x = 5, vec_y = 0, vec_z = 0\<rparr>" and thisAngle = 0
      and type = "[]" and angle = 0 and focus = "2 * pi" and minDist = 0 and maxDist = 100
      and furthest = False and rfilter = 0 and cbotTypes = False
      and r = "example_object 0 OBJECT_SCRAP1 0 0"]
  from T DeleteObject_two_objects inv ids before res show ?thesis by simp
qed

end
